theory Spec2Isabelle
  imports Main "HOL-Library.Sublist"
begin

section \<open>The service worker (public/sw.js)\<close>

subsection \<open>Strings, requests, responses\<close>

text \<open>
  JavaScript's \<^verbatim>\<open>s.startsWith(p)\<close> and \<^verbatim>\<open>s.includes(p)\<close> on strings (the second is
  \<open>includes_str\<close> here): \<open>p\<close> is a prefix of \<open>s\<close>, and \<open>p\<close> occurs somewhere in
  \<open>s\<close> as a contiguous run.
\<close>

fun startsWith :: "string \<Rightarrow> string \<Rightarrow> bool" where
  "startsWith s [] = True"
| "startsWith [] (p # ps) = False"
| "startsWith (c # cs) (p # ps) = (c = p \<and> startsWith cs ps)"

fun includes_str :: "string \<Rightarrow> string \<Rightarrow> bool" where
  "includes_str [] p = (p = [])"
| "includes_str (c # cs) p = (startsWith (c # cs) p \<or> includes_str cs p)"

text \<open>
  A request as the fetch handler reads it: \<^verbatim>\<open>request.method\<close> (here \<open>method'\<close>) and the parts of
  \<^verbatim>\<open>new URL(request.url)\<close> (\<^verbatim>\<open>origin\<close>, \<^verbatim>\<open>pathname\<close>, and the query string, which
  belongs to the cache key). A response carries its HTTP status, a body, and the
  field values of its \<^verbatim>\<open>Vary\<close> header, which \<^verbatim>\<open>cache.put\<close> inspects.
\<close>

record request =
  method' :: string
  origin :: string
  pathname :: string
  search :: string

record response =
  status :: nat
  body :: string
  vary :: "string list"

text \<open>
  What a promise settles to. \<open>NetworkError\<close> is the rejection of \<^verbatim>\<open>fetch\<close> when the
  network is unreachable, \<open>TypeError\<close> the rejection of \<^verbatim>\<open>cache.addAll\<close> on a response
  it does not accept, \<open>AuthError\<close> a refusal of the remote backend, \<open>DecodeError\<close> a
  failure to decode a pushed row.
\<close>

datatype error = NetworkError | TypeError | AuthError | DecodeError

datatype 'a promise = Resolved 'a | Rejected error

subsection \<open>The Cache API\<close>

text \<open>
  A cache maps requests to responses; \<^verbatim>\<open>caches\<close> (the CacheStorage) is the list of
  named caches in creation order, which is the order \<^verbatim>\<open>caches.match\<close> searches them in.
\<close>

type_synonym cache = "(request \<times> response) list"
type_synonym cache_storage = "(string \<times> cache) list"

definition cache_match :: "cache \<Rightarrow> request \<Rightarrow> response option" where
  "cache_match c req = map_of c req"

text \<open>
  A put that the cache accepts removes the entry the request had, if any, and appends
  the new one.
\<close>

definition cache_put :: "request \<Rightarrow> response \<Rightarrow> cache \<Rightarrow> cache" where
  "cache_put req resp c = filter (\<lambda>(k, v). k \<noteq> req) c @ [(req, resp)]"

text \<open>
  \<^verbatim>\<open>cache.put(request, response)\<close> rejects, and leaves the cache as it was, unless the
  request is an http(s) GET request and the response has neither status 206 nor a
  \<^verbatim>\<open>Vary: *\<close> header. The scheme is read off the origin, which begins with it. The
  storage quota is taken to suffice.
\<close>

definition put_accepted :: "request \<Rightarrow> response \<Rightarrow> bool" where
  "put_accepted req resp =
     ((startsWith (origin req) ''http://'' \<or> startsWith (origin req) ''https://'') \<and>
      method' req = ''GET'' \<and> status resp \<noteq> 206 \<and> ''*'' \<notin> set (vary resp))"

definition caches_keys :: "cache_storage \<Rightarrow> string list" where
  "caches_keys store = map fst store"

text \<open>\<^verbatim>\<open>caches.open(name)\<close> creates the cache when there is none of that name.\<close>

definition caches_open :: "string \<Rightarrow> cache_storage \<Rightarrow> cache_storage" where
  "caches_open name store =
     (if name \<in> set (caches_keys store) then store else store @ [(name, [])])"

definition caches_delete :: "string \<Rightarrow> cache_storage \<Rightarrow> cache_storage" where
  "caches_delete name store = filter (\<lambda>(n, c). n \<noteq> name) store"

text \<open>\<^verbatim>\<open>caches.match(request)\<close>: the first cache, in creation order, that holds the
  request answers; \<open>None\<close> is JavaScript's \<^verbatim>\<open>undefined\<close>.\<close>

fun caches_match :: "cache_storage \<Rightarrow> request \<Rightarrow> response option" where
  "caches_match [] req = None"
| "caches_match ((n, c) # store) req =
     (case cache_match c req of Some r \<Rightarrow> Some r | None \<Rightarrow> caches_match store req)"

text \<open>The put of an accepted pair into the first cache of the given name.\<close>

fun put_in :: "string \<Rightarrow> request \<Rightarrow> response \<Rightarrow> cache_storage \<Rightarrow> cache_storage" where
  "put_in name req resp [] = []"
| "put_in name req resp ((n, c) # store) =
     (if n = name then (n, cache_put req resp c) # store
      else (n, c) # put_in name req resp store)"

text \<open>
  \<^verbatim>\<open>caches.open(name).then(cache => cache.put(request, response))\<close>, once it has
  settled: the cache is opened (and created if need be), and the pair is stored if the
  put accepts it.
\<close>

definition open_put :: "string \<Rightarrow> request \<Rightarrow> response \<Rightarrow> cache_storage \<Rightarrow> cache_storage" where
  "open_put name req resp store =
     (let opened = caches_open name store in
      if put_accepted req resp then put_in name req resp opened else opened)"

text \<open>The cache of a given name, as \<^verbatim>\<open>caches.open(name)\<close> would hand it out.\<close>

definition cache_named :: "cache_storage \<Rightarrow> string \<Rightarrow> cache" where
  "cache_named store name = (case map_of store name of Some c \<Rightarrow> c | None \<Rightarrow> [])"

subsection \<open>Constants of sw.js\<close>

definition CACHE_NAME :: string where
  "CACHE_NAME = ''jawala-business-v1''"

definition RUNTIME_CACHE :: string where
  "RUNTIME_CACHE = ''jawala-runtime-v1''"

text \<open>
  \<^verbatim>\<open>PRECACHE_ASSETS\<close>, each URL resolved to a GET request. The first three are
  relative to the worker's own origin, here the parameter \<open>self_origin\<close>.
\<close>

definition PRECACHE_ASSETS :: "string \<Rightarrow> request list" where
  "PRECACHE_ASSETS self_origin =
    [\<lparr>method' = ''GET'', origin = self_origin, pathname = ''/'', search = ''''\<rparr>,
     \<lparr>method' = ''GET'', origin = self_origin, pathname = ''/index.html'', search = ''''\<rparr>,
     \<lparr>method' = ''GET'', origin = self_origin, pathname = ''/manifest.json'', search = ''''\<rparr>,
     \<lparr>method' = ''GET'', origin = ''https://cdn.tailwindcss.com'',
      pathname = ''/3.4.17'', search = ''''\<rparr>,
     \<lparr>method' = ''GET'', origin = ''https://cdnjs.cloudflare.com'',
      pathname = ''/ajax/libs/font-awesome/6.5.1/css/all.min.css'', search = ''''\<rparr>,
     \<lparr>method' = ''GET'', origin = ''https://fonts.googleapis.com'', pathname = ''/css2'',
      search = ''?family=Inter:wght@400;600;700&family=Noto+Sans+Devanagari:wght@400;600;700&display=swap''\<rparr>]"

subsection \<open>install\<close>

text \<open>
  The network as one run of the worker sees it: \<^verbatim>\<open>fetch(request)\<close> resolves with a
  response (of any status) or rejects.
\<close>

type_synonym network = "request \<Rightarrow> error + response"

definition ok :: "response \<Rightarrow> bool" where
  "ok resp = (200 \<le> status resp \<and> status resp \<le> 299)"

text \<open>
  \<^verbatim>\<open>cache.addAll(urls)\<close> fetches every URL and stores all the responses, or rejects
  and stores nothing when one fetch fails or one response is not accepted: its status
  is not ok or is 206, or it has a \<^verbatim>\<open>Vary: *\<close> header.
\<close>

definition addAll_accepts :: "response \<Rightarrow> bool" where
  "addAll_accepts resp = (ok resp \<and> status resp \<noteq> 206 \<and> ''*'' \<notin> set (vary resp))"

fun addAll_fetch :: "network \<Rightarrow> request list \<Rightarrow> error + (request \<times> response) list" where
  "addAll_fetch net [] = Inr []"
| "addAll_fetch net (r # rs) =
     (case net r of
        Inl e \<Rightarrow> Inl e
      | Inr resp \<Rightarrow>
          if \<not> addAll_accepts resp then Inl TypeError
          else (case addAll_fetch net rs of
                  Inl e \<Rightarrow> Inl e
                | Inr ps \<Rightarrow> Inr ((r, resp) # ps)))"

text \<open>
  The install listener: open \<open>CACHE_NAME\<close>, add all the precache assets; a failure is
  caught and logged, which leaves the opened cache as it was.
\<close>

definition install :: "string \<Rightarrow> network \<Rightarrow> cache_storage \<Rightarrow> cache_storage" where
  "install self_origin net store =
     (let opened = caches_open CACHE_NAME store in
      case addAll_fetch net (PRECACHE_ASSETS self_origin) of
        Inl e \<Rightarrow> opened
      | Inr ps \<Rightarrow> fold (\<lambda>(r, resp). put_in CACHE_NAME r resp) ps opened)"

subsection \<open>activate\<close>

text \<open>
  The activate listener: \<^verbatim>\<open>caches.keys()\<close>, keep the names that are neither
  \<open>CACHE_NAME\<close> nor \<open>RUNTIME_CACHE\<close>, and \<^verbatim>\<open>caches.delete\<close> each of them.
\<close>

definition activate :: "cache_storage \<Rightarrow> cache_storage" where
  "activate store =
     fold caches_delete
       (filter (\<lambda>name. name \<noteq> CACHE_NAME \<and> name \<noteq> RUNTIME_CACHE) (caches_keys store))
       store"

subsection \<open>fetch\<close>

text \<open>
  What the fetch listener does with an event: it returns without calling
  \<^verbatim>\<open>event.respondWith\<close> (the browser then handles the request itself), or it calls
  \<^verbatim>\<open>respondWith\<close> with a promise. That promise resolves with a response, resolves
  with \<^verbatim>\<open>undefined\<close> (\<open>None\<close>), or rejects.
\<close>

datatype handler_outcome = NotIntercepted | RespondWith "response option promise"

text \<open>
  The result of one fetch event: the outcome, the network fetches the handler made,
  the cache writes it started (cache name, request, response), and the cache storage
  once those writes have settled.
\<close>

record fetch_result =
  outcome :: handler_outcome
  fetched :: "request list"
  puts :: "(string \<times> request \<times> response) list"
  storage :: cache_storage

text \<open>The test of the network-first branch (sw.js lines 62-64).\<close>

definition network_first :: "request \<Rightarrow> bool" where
  "network_first req =
     (startsWith (pathname req) ''/api/'' \<or>
      includes_str (pathname req) ''assets/index-'' \<or>
      includes_str (pathname req) ''assets/cacheService-'')"

text \<open>
  The \<^verbatim>\<open>.then\<close> callback shared by both branches: for a response of status 200 a
  put of its clone into \<open>RUNTIME_CACHE\<close> is started (not awaited; \<open>open_put\<close> says what
  it leaves once settled), and the response is returned in every case.
\<close>

definition write_through :: "request \<Rightarrow> response \<Rightarrow> cache_storage \<Rightarrow> fetch_result" where
  "write_through req resp store =
     (if status resp = 200 then
        \<lparr>outcome = RespondWith (Resolved (Some resp)), fetched = [req],
         puts = [(RUNTIME_CACHE, req, resp)],
         storage = open_put RUNTIME_CACHE req resp store\<rparr>
      else
        \<lparr>outcome = RespondWith (Resolved (Some resp)), fetched = [req],
         puts = [], storage = store\<rparr>)"

definition fetch_handler :: "network \<Rightarrow> cache_storage \<Rightarrow> request \<Rightarrow> fetch_result" where
  "fetch_handler net store req =
     (if method' req \<noteq> ''GET'' then
        \<lparr>outcome = NotIntercepted, fetched = [], puts = [], storage = store\<rparr>
      else if includes_str (origin req) ''supabase.co'' then
        \<lparr>outcome = NotIntercepted, fetched = [], puts = [], storage = store\<rparr>
      else if network_first req then
        (case net req of
           Inr resp \<Rightarrow> write_through req resp store
         | Inl e \<Rightarrow>
             \<lparr>outcome = RespondWith (Resolved (caches_match store req)), fetched = [req],
              puts = [], storage = store\<rparr>)
      else
        (case caches_match store req of
           Some cachedResponse \<Rightarrow>
             \<lparr>outcome = RespondWith (Resolved (Some cachedResponse)), fetched = [],
              puts = [], storage = store\<rparr>
         | None \<Rightarrow>
             (case net req of
                Inr resp \<Rightarrow> write_through req resp store
              | Inl e \<Rightarrow>
                  \<lparr>outcome = RespondWith (Rejected e), fetched = [req],
                   puts = [], storage = store\<rparr>)))"

text \<open>
  The same listener as the sequence of its events, in the order in which they happen.
  The put runs in a callback of the promise of \<^verbatim>\<open>caches.open\<close>, a promise the handler
  neither awaits nor returns: the \<^verbatim>\<open>.then\<close> callback returns the response first, and
  the promise given to \<^verbatim>\<open>respondWith\<close> has settled with it when the put runs.
\<close>

datatype sw_event =
    CachesMatch request "response option"
  | Fetch request "error + response"
  | Answered "response option promise"
  | CachePut string request response

definition then_events :: "request \<Rightarrow> response \<Rightarrow> sw_event list" where
  "then_events req resp =
     (if status resp = 200 then
        [Answered (Resolved (Some resp)), CachePut RUNTIME_CACHE req resp]
      else [Answered (Resolved (Some resp))])"

definition fetch_events :: "network \<Rightarrow> cache_storage \<Rightarrow> request \<Rightarrow> sw_event list" where
  "fetch_events net store req =
     (if method' req \<noteq> ''GET'' then []
      else if includes_str (origin req) ''supabase.co'' then []
      else if network_first req then
        (case net req of
           Inr resp \<Rightarrow> Fetch req (Inr resp) # then_events req resp
         | Inl e \<Rightarrow>
             [Fetch req (Inl e), CachesMatch req (caches_match store req),
              Answered (Resolved (caches_match store req))])
      else
        (case caches_match store req of
           Some cachedResponse \<Rightarrow>
             [CachesMatch req (Some cachedResponse), Answered (Resolved (Some cachedResponse))]
         | None \<Rightarrow>
             (case net req of
                Inr resp \<Rightarrow> CachesMatch req None # Fetch req (Inr resp) # then_events req resp
              | Inl e \<Rightarrow> [CachesMatch req None, Fetch req (Inl e), Answered (Rejected e)])))"

text \<open>What the events say about the answer, the fetches and the started writes.\<close>

fun answer_of :: "sw_event list \<Rightarrow> handler_outcome" where
  "answer_of [] = NotIntercepted"
| "answer_of (Answered p # es) = RespondWith p"
| "answer_of (e # es) = answer_of es"

fun fetches_of :: "sw_event list \<Rightarrow> request list" where
  "fetches_of [] = []"
| "fetches_of (Fetch r a # es) = r # fetches_of es"
| "fetches_of (e # es) = fetches_of es"

fun puts_of :: "sw_event list \<Rightarrow> (string \<times> request \<times> response) list" where
  "puts_of [] = []"
| "puts_of (CachePut n k v # es) = (n, k, v) # puts_of es"
| "puts_of (e # es) = puts_of es"

text \<open>
  A property of the cache storage the worker builds: a request of the network-first
  class is held by the runtime cache only.
\<close>

definition runtime_only :: "cache_storage \<Rightarrow> bool" where
  "runtime_only store =
     list_all (\<lambda>(n, c). n = RUNTIME_CACHE \<or> list_all (\<lambda>(k, v). \<not> network_first k) c) store"

section \<open>The application (App.tsx)\<close>

subsection \<open>Data\<close>

text \<open>
  The entities of \<^verbatim>\<open>./types\<close>, with the fields the application reads and writes. The
  field \<^verbatim>\<open>id\<close> of a business is \<open>id'\<close> here, those of a category carry the prefix
  \<open>category_\<close>.
\<close>

record Category =
  category_id :: string
  category_name :: string
  category_icon :: string

record Business =
  id' :: string
  shopName :: string
  ownerName :: string
  contactNumber :: string
  category :: string
  address :: "string option"
  openingHours :: "string option"
  homeDelivery :: "bool option"
  paymentOptions :: "string list option"
  services :: "string list option"

record BusinessData =
  categories :: "Category list"
  businesses :: "Business list"

text \<open>
  What \<^verbatim>\<open>SupabaseService.getDataVersion()\<close> resolves with, and the version record the
  application stores: the same fields and \<^verbatim>\<open>last_sync\<close>.
\<close>

record DataVersion =
  businessCount :: int
  categoryCount :: int
  fingerprint :: string

record DatasetVersion = DataVersion +
  last_sync :: int

text \<open>\<^verbatim>\<open>{ ...version, last_sync: Date.now() }\<close>, with \<open>now\<close> the value of \<^verbatim>\<open>Date.now()\<close>.\<close>

definition stamp :: "DataVersion \<Rightarrow> int \<Rightarrow> DatasetVersion" where
  "stamp version now =
     \<lparr>businessCount = businessCount version, categoryCount = categoryCount version,
      fingerprint = fingerprint version, last_sync = now\<rparr>"

text \<open>
  The state the application works on: the React state \<^verbatim>\<open>businessData\<close>, and what the
  cache service persists (the two entity collections and the version record).
\<close>

record app_state =
  businessData :: BusinessData
  cachedBusinesses :: "Business list"
  cachedCategories :: "Category list"
  localVersion :: "DatasetVersion option"

subsection \<open>The cache service\<close>

text \<open>
  Modelled from the spec: \<^verbatim>\<open>CacheService.updateCachedBusiness\<close> (module
  \<^verbatim>\<open>./cacheService\<close>) is the Entity Cache's \<^verbatim>\<open>upsertBusiness\<close>: insert if the id is
  unseen, else overwrite by id. Persistence errors are logged and swallowed, so the
  call never rejects.
\<close>

fun updateCachedBusiness :: "Business \<Rightarrow> Business list \<Rightarrow> Business list" where
  "updateCachedBusiness b [] = [b]"
| "updateCachedBusiness b (x # xs) =
     (if id' x = id' b then b # xs else x # updateCachedBusiness b xs)"

text \<open>
  Modelled from the spec: \<^verbatim>\<open>CacheService.deleteCachedBusiness\<close> (module
  \<^verbatim>\<open>./cacheService\<close>) is the Entity Cache's \<^verbatim>\<open>deleteBusiness(id)\<close>: remove by id, a
  no-op if the id is unseen; it never rejects.
\<close>

definition deleteCachedBusiness :: "string \<Rightarrow> Business list \<Rightarrow> Business list" where
  "deleteCachedBusiness i xs = filter (\<lambda>b. id' b \<noteq> i) xs"

text \<open>
  Modelled from the spec: \<^verbatim>\<open>CacheService.setLocalVersion\<close> (module \<^verbatim>\<open>./cacheService\<close>) is
  the Version Store's \<^verbatim>\<open>set(DatasetVersion)\<close>.
\<close>

definition setLocalVersion :: "DatasetVersion \<Rightarrow> app_state \<Rightarrow> app_state" where
  "setLocalVersion v s = s\<lparr>localVersion := Some v\<rparr>"

text \<open>
  Modelled from the spec: \<^verbatim>\<open>CacheService.smartSync(fetchVersion, fetchAll)\<close> (module
  \<^verbatim>\<open>./cacheService\<close>), section 4.3 of the spec. The two capabilities are given by what
  they settle to in this invocation. The steps:
  \<^enum> read the local version; absent means "must sync";
  \<^enum> call \<open>fetchVersion\<close>; if it fails, return the Entity Cache contents tagged
    \<open>no_change\<close>, \<open>fromCache = True\<close>;
  \<^enum> if the remote version equals the local one on (businessCount, categoryCount,
    fingerprint), return the Entity Cache contents tagged \<open>no_change\<close>; the version
    record is overwritten on every comparison (section 3);
  \<^enum> otherwise call \<open>fetchAll\<close>, write the result through \<open>replaceAll\<close> and the
    Version Store, and return the fresh data tagged \<open>synced\<close>, \<open>fromCache = False\<close>;
    a failing \<open>fetchAll\<close> falls back to the cached data (section 7).
\<close>

datatype sync_action = no_change | synced

record SyncResult = BusinessData +
  action :: sync_action
  fromCache :: bool

definition same_version :: "DatasetVersion \<Rightarrow> DatasetVersion \<Rightarrow> bool" where
  "same_version a b =
     (businessCount a = businessCount b \<and> categoryCount a = categoryCount b \<and>
      fingerprint a = fingerprint b)"

definition cached_result :: "app_state \<Rightarrow> SyncResult" where
  "cached_result s =
     \<lparr>categories = cachedCategories s, businesses = cachedBusinesses s,
      action = no_change, fromCache = True\<rparr>"

definition full_sync ::
  "DatasetVersion \<Rightarrow> (error + BusinessData) \<Rightarrow> app_state \<Rightarrow> app_state \<times> SyncResult"
where
  "full_sync remote fetchAll s =
     (case fetchAll of
        Inl e \<Rightarrow> (s, cached_result s)
      | Inr fresh \<Rightarrow>
          (setLocalVersion remote
             (s\<lparr>cachedCategories := categories fresh, cachedBusinesses := businesses fresh\<rparr>),
           \<lparr>categories = categories fresh, businesses = businesses fresh,
            action = synced, fromCache = False\<rparr>))"

definition smartSync ::
  "(error + DatasetVersion) \<Rightarrow> (error + BusinessData) \<Rightarrow> app_state \<Rightarrow> app_state \<times> SyncResult"
where
  "smartSync fetchVersion fetchAll s =
     (case fetchVersion of
        Inl e \<Rightarrow> (s, cached_result s)
      | Inr remote \<Rightarrow>
          (case localVersion s of
             Some local \<Rightarrow>
               if same_version local remote then (setLocalVersion remote s, cached_result s)
               else full_sync remote fetchAll s
           | None \<Rightarrow> full_sync remote fetchAll s))"

subsection \<open>loadData: the capabilities handed to smartSync\<close>

text \<open>
  The first argument of the call (App.tsx, \<^verbatim>\<open>loadData\<close>): await
  \<^verbatim>\<open>SupabaseService.getDataVersion()\<close> and add \<^verbatim>\<open>last_sync\<close>; a rejection of
  \<^verbatim>\<open>getDataVersion\<close> is the rejection of the capability.
\<close>

definition loadData_fetchVersion :: "(error + DataVersion) \<Rightarrow> int \<Rightarrow> error + DatasetVersion" where
  "loadData_fetchVersion getDataVersion now =
     (case getDataVersion of Inl e \<Rightarrow> Inl e | Inr version \<Rightarrow> Inr (stamp version now))"

text \<open>
  The second argument: \<^verbatim>\<open>Promise.all\<close> of \<^verbatim>\<open>fetchCategories()\<close> and
  \<^verbatim>\<open>fetchBusinesses()\<close>, which rejects when either does.
\<close>

definition loadData_fetchAll ::
  "(error + Category list) \<Rightarrow> (error + Business list) \<Rightarrow> error + BusinessData"
where
  "loadData_fetchAll fetchCategories fetchBusinesses =
     (case fetchCategories of
        Inl e \<Rightarrow> Inl e
      | Inr cs \<Rightarrow>
          (case fetchBusinesses of
             Inl e \<Rightarrow> Inl e
           | Inr bs \<Rightarrow> Inr \<lparr>categories = cs, businesses = bs\<rparr>))"

subsection \<open>The change-stream handler\<close>

text \<open>
  The payload of a real-time event: \<^verbatim>\<open>eventType\<close>, the new row (\<^verbatim>\<open>payload.new\<close>, not
  yet decoded) and the old row, of which the handler reads the id only. \<open>None\<close> is a
  missing (falsy) field.
\<close>

datatype event_type = INSERT | UPDATE | DELETE

record old_row =
  old_id :: string

record 'raw payload =
  eventType :: event_type
  new :: "'raw option"
  old :: "old_row option"

text \<open>
  What one run of the handler leaves: the state, and the errors it caught and logged
  with \<^verbatim>\<open>console.error\<close>.
\<close>

record handler_result =
  state :: app_state
  logged :: "error list"

text \<open>
  The first half of the handler (the if / else-if chain on the event type). The
  decoder \<^verbatim>\<open>SupabaseService.dbBusinessToBusiness\<close> is a parameter; where it throws,
  the handler's promise rejects before anything was changed.
\<close>

definition applyEvent ::
  "('raw \<Rightarrow> error + Business) \<Rightarrow> 'raw payload \<Rightarrow> app_state \<Rightarrow> error + app_state"
where
  "applyEvent dbBusinessToBusiness p s =
     (if eventType p = INSERT \<and> new p \<noteq> None then
        (case dbBusinessToBusiness (the (new p)) of
           Inl e \<Rightarrow> Inl e
         | Inr newBusiness \<Rightarrow>
             Inr (s\<lparr>cachedBusinesses := updateCachedBusiness newBusiness (cachedBusinesses s),
                    businessData := (businessData s)
                      \<lparr>businesses := newBusiness # businesses (businessData s)\<rparr>\<rparr>))
      else if eventType p = UPDATE \<and> new p \<noteq> None then
        (case dbBusinessToBusiness (the (new p)) of
           Inl e \<Rightarrow> Inl e
         | Inr updatedBusiness \<Rightarrow>
             Inr (s\<lparr>cachedBusinesses := updateCachedBusiness updatedBusiness (cachedBusinesses s),
                    businessData := (businessData s)
                      \<lparr>businesses :=
                         map (\<lambda>b. if id' b = id' updatedBusiness then updatedBusiness else b)
                           (businesses (businessData s))\<rparr>\<rparr>))
      else if eventType p = DELETE \<and> old p \<noteq> None then
        Inr (s\<lparr>cachedBusinesses := deleteCachedBusiness (old_id (the (old p))) (cachedBusinesses s),
               businessData := (businessData s)
                 \<lparr>businesses :=
                    filter (\<lambda>b. id' b \<noteq> old_id (the (old p))) (businesses (businessData s))\<rparr>\<rparr>)
      else Inr s)"

text \<open>
  The second half: \<^verbatim>\<open>try { getDataVersion, setLocalVersion } catch { console.error }\<close>.
\<close>

definition refreshVersion :: "(error + DataVersion) \<Rightarrow> int \<Rightarrow> app_state \<Rightarrow> handler_result" where
  "refreshVersion getDataVersion now s =
     (case getDataVersion of
        Inr newVersion \<Rightarrow> \<lparr>state = setLocalVersion (stamp newVersion now) s, logged = []\<rparr>
      | Inl e \<Rightarrow> \<lparr>state = s, logged = [e]\<rparr>)"

text \<open>
  The handler passed to \<^verbatim>\<open>subscribeToBusinessChanges\<close>. \<open>Inl\<close> is a rejection of the
  handler's promise (an error it raised), \<open>Inr\<close> its normal completion.
\<close>

definition changeHandler ::
  "('raw \<Rightarrow> error + Business) \<Rightarrow> (error + DataVersion) \<Rightarrow> int \<Rightarrow> 'raw payload \<Rightarrow> app_state
     \<Rightarrow> error + handler_result"
where
  "changeHandler dbBusinessToBusiness getDataVersion now p s =
     (case applyEvent dbBusinessToBusiness p s of
        Inl e \<Rightarrow> Inl e
      | Inr s1 \<Rightarrow> Inr (refreshVersion getDataVersion now s1))"

section \<open>Example inputs\<close>

text \<open>Networks: unreachable, answering every request with 200, with 404, with a 200
  that carries \<^verbatim>\<open>Vary: *\<close>, and with 204.\<close>

definition offline :: network where
  "offline req = Inl NetworkError"

definition page_200 :: response where
  "page_200 = \<lparr>status = 200, body = ''bundle'', vary = []\<rparr>"

definition not_found :: response where
  "not_found = \<lparr>status = 404, body = '''', vary = []\<rparr>"

definition vary_page :: response where
  "vary_page = \<lparr>status = 200, body = ''icon'', vary = [''*'']\<rparr>"

definition online :: network where
  "online req = Inr page_200"

definition serves_404 :: network where
  "serves_404 req = Inr not_found"

definition serves_vary :: network where
  "serves_vary req = Inr vary_page"

definition no_content :: response where
  "no_content = \<lparr>status = 204, body = '''', vary = []\<rparr>"

definition serves_204 :: network where
  "serves_204 req = Inr no_content"

text \<open>Requests: the application bundle (network-first), an icon (static), a Supabase
  query.\<close>

definition app_bundle :: request where
  "app_bundle = \<lparr>method' = ''GET'', origin = ''https://jawala.example'',
     pathname = ''/assets/index-4f2a.js'', search = ''''\<rparr>"

definition icon_png :: request where
  "icon_png = \<lparr>method' = ''GET'', origin = ''https://jawala.example'',
     pathname = ''/icons/icon-192.png'', search = ''''\<rparr>"

definition supabase_rows :: request where
  "supabase_rows = \<lparr>method' = ''GET'', origin = ''https://xyzcompany.supabase.co'',
     pathname = ''/rest/v1/businesses'', search = ''?select=*''\<rparr>"

text \<open>Cache storages: one whose runtime cache holds the bundle, and one with a cache of
  an older generation.\<close>

definition runtime_store :: cache_storage where
  "runtime_store = [(CACHE_NAME, []), (RUNTIME_CACHE, [(app_bundle, page_200)])]"

definition stale_store :: cache_storage where
  "stale_store =
     [(''jawala-business-v0'', [(icon_png, not_found)]), (CACHE_NAME, []),
      (RUNTIME_CACHE, [(supabase_rows, page_200)])]"

text \<open>Businesses, a remote version, application states and events.\<close>

definition shop :: Business where
  "shop = \<lparr>id' = ''1'', shopName = ''Kirana'', ownerName = ''Patil'',
     contactNumber = ''9876543210'', category = ''grocery'', address = None,
     openingHours = None, homeDelivery = Some True, paymentOptions = Some [''UPI'', ''Cash''],
     services = Some []\<rparr>"

definition shop_renamed :: Business where
  "shop_renamed = shop\<lparr>shopName := ''Kirana Stores''\<rparr>"

definition tailor :: Business where
  "tailor = shop\<lparr>id' := ''2'', shopName := ''Tailor'', category := ''tailor''\<rparr>"

definition remote_v :: DataVersion where
  "remote_v = \<lparr>businessCount = 2, categoryCount = 1, fingerprint = ''A''\<rparr>"

definition remote_v2 :: DataVersion where
  "remote_v2 = \<lparr>businessCount = 3, categoryCount = 1, fingerprint = ''B''\<rparr>"

definition synced_state :: app_state where
  "synced_state =
     \<lparr>businessData = \<lparr>categories = [], businesses = [shop, tailor]\<rparr>,
      cachedBusinesses = [shop, tailor], cachedCategories = [],
      localVersion = Some (stamp remote_v 1000)\<rparr>"

definition renamed_state :: app_state where
  "renamed_state =
     \<lparr>businessData = \<lparr>categories = [], businesses = [shop_renamed, tailor]\<rparr>,
      cachedBusinesses = [shop_renamed, tailor], cachedCategories = [],
      localVersion = Some (stamp remote_v 1000)\<rparr>"

text \<open>A decoder for rows that already have the shape of a business.\<close>

definition decode_row :: "Business \<Rightarrow> error + Business" where
  "decode_row raw = Inr raw"

definition update_shop :: "Business payload" where
  "update_shop = \<lparr>eventType = UPDATE, new = Some shop_renamed, old = None\<rparr>"

definition delete_unseen :: "Business payload" where
  "delete_unseen = \<lparr>eventType = DELETE, new = None, old = Some \<lparr>old_id = ''7''\<rparr>\<rparr>"

section \<open>Properties of the service worker\<close>

subsection \<open>The string tests are the library's prefix and sublist\<close>

lemma startsWith_prefix: "startsWith s p \<longleftrightarrow> prefix p s"
  by (induction s p rule: startsWith.induct) auto

lemma includes_str_sublist: "includes_str s p \<longleftrightarrow> sublist p s"
  by (induction s) (auto simp: startsWith_prefix sublist_Cons_right)

subsection \<open>The Cache API\<close>

lemma map_of_filter_other: "map_of (filter (\<lambda>(k, v). k \<noteq> req) c) req = None"
  by (induction c) auto

lemma cache_match_cache_put: "cache_match (cache_put req resp c) req = Some resp"
  by (simp add: cache_match_def cache_put_def map_add_def map_of_filter_other)

lemma list_all_cache_put:
  "list_all P c \<Longrightarrow> P (req, resp) \<Longrightarrow> list_all P (cache_put req resp c)"
  by (simp add: cache_put_def list_all_iff)

lemma map_of_put_in:
  "map_of (put_in nm req resp store) nm = map_option (cache_put req resp) (map_of store nm)"
  by (induction store) auto

lemma map_of_caches_open:
  "map_of (caches_open nm store) nm = Some (cache_named store nm)"
proof (cases "map_of store nm")
  case None
  then have "nm \<notin> fst ` set store"
    by (simp add: map_of_eq_None_iff)
  with None show ?thesis
    by (simp add: caches_open_def cache_named_def caches_keys_def map_add_def)
next
  case (Some c)
  then have "nm \<in> fst ` set store"
    by (metis map_of_eq_None_iff option.distinct(1))
  with Some show ?thesis
    by (simp add: caches_open_def cache_named_def caches_keys_def)
qed

lemma cache_named_caches_open: "cache_named (caches_open nm store) nm = cache_named store nm"
  by (simp add: map_of_caches_open cache_named_def[of "caches_open _ _"])

lemma cache_named_open_put:
  "cache_named (open_put nm req resp store) nm =
     (if put_accepted req resp then cache_put req resp (cache_named store nm)
      else cache_named store nm)"
  by (simp add: open_put_def Let_def map_of_put_in map_of_caches_open cache_named_caches_open
      cache_named_def[of "put_in _ _ _ _"])

lemma cache_named_holds:
  "cache_match (cache_named store nm) req = Some r
     \<Longrightarrow> map_of store nm = Some (cache_named store nm)"
  by (auto simp: cache_named_def cache_match_def split: option.splits)

lemma caches_match_named:
  "map_of store nm = Some c \<Longrightarrow> cache_match c req = Some r
     \<Longrightarrow> \<exists>r'. caches_match store req = Some r'"
  by (induction store) (auto split: option.splits if_splits)

text \<open>The storage a fetch event leaves is the old one with the started writes done.\<close>

lemma storage_is_puts_applied:
  "storage (fetch_handler net store req) =
     fold (\<lambda>(n, k, v). open_put n k v) (puts (fetch_handler net store req)) store"
  by (simp add: fetch_handler_def write_through_def split: sum.splits option.splits)

text \<open>The result of a fetch event is what its events say.\<close>

lemma fetch_handler_events:
  "outcome (fetch_handler net store req) = answer_of (fetch_events net store req)
   \<and> fetched (fetch_handler net store req) = fetches_of (fetch_events net store req)
   \<and> puts (fetch_handler net store req) = puts_of (fetch_events net store req)"
  by (simp add: fetch_handler_def fetch_events_def write_through_def then_events_def
      split: sum.splits option.splits)

subsection \<open>activate\<close>

lemma fold_caches_delete:
  "fold caches_delete names store = filter (\<lambda>(n, c). n \<notin> set names) store"
proof (induction names arbitrary: store)
  case Nil
  then show ?case by simp
next
  case (Cons a names)
  have "fold caches_delete (a # names) store = fold caches_delete names (caches_delete a store)"
    by simp
  also have "\<dots> = filter (\<lambda>(n, c). n \<notin> set names) (caches_delete a store)"
    by (rule Cons.IH)
  also have "\<dots> = filter (\<lambda>(n, c). n \<notin> set (a # names)) store"
    by (auto simp: caches_delete_def intro: filter_cong)
  finally show ?case .
qed

lemma activate_filter:
  "activate store = filter (\<lambda>(n, c). n = CACHE_NAME \<or> n = RUNTIME_CACHE) store"
  unfolding activate_def fold_caches_delete caches_keys_def
  by (rule filter_cong) (auto simp: rev_image_eqI)

text \<open>
  C9. On activation every cache whose name is neither \<open>CACHE_NAME\<close> nor
  \<open>RUNTIME_CACHE\<close> is deleted: no such name is among the keys afterwards, the keys
  that remain are among those two names, and the caches of those two names are kept
  as they were, in their order.
\<close>

theorem activate_purges_old_caches:
  "(\<forall>nm \<in> set (caches_keys store).
       nm \<noteq> CACHE_NAME \<and> nm \<noteq> RUNTIME_CACHE \<longrightarrow> nm \<notin> set (caches_keys (activate store)))
   \<and> set (caches_keys (activate store)) \<subseteq> {CACHE_NAME, RUNTIME_CACHE}
   \<and> activate store = filter (\<lambda>(n, c). n = CACHE_NAME \<or> n = RUNTIME_CACHE) store"
  by (auto simp: activate_filter caches_keys_def)

theorem activate_purges_old_caches_witness:
  "''jawala-business-v0'' \<in> set (caches_keys stale_store)
   \<and> ''jawala-business-v0'' \<noteq> CACHE_NAME \<and> ''jawala-business-v0'' \<noteq> RUNTIME_CACHE
   \<and> ''jawala-business-v0'' \<notin> set (caches_keys (activate stale_store))
   \<and> activate stale_store = [(CACHE_NAME, []), (RUNTIME_CACHE, [(supabase_rows, page_200)])]"
proof -
  have h1: "''jawala-business-v0'' \<in> set (caches_keys stale_store)"
    by (simp add: stale_store_def caches_keys_def)
  have h2: "''jawala-business-v0'' \<noteq> CACHE_NAME \<and> ''jawala-business-v0'' \<noteq> RUNTIME_CACHE"
    by (simp add: CACHE_NAME_def RUNTIME_CACHE_def)
  have h3: "filter (\<lambda>(n, c). n = CACHE_NAME \<or> n = RUNTIME_CACHE) stale_store
      = [(CACHE_NAME, []), (RUNTIME_CACHE, [(supabase_rows, page_200)])]"
    by (simp add: stale_store_def CACHE_NAME_def RUNTIME_CACHE_def)
  have "''jawala-business-v0'' \<notin> set (caches_keys (activate stale_store))"
    using activate_purges_old_caches [of stale_store] h1 h2 by blast
  moreover have "activate stale_store
      = [(CACHE_NAME, []), (RUNTIME_CACHE, [(supabase_rows, page_200)])]"
    using activate_purges_old_caches [of stale_store] h3 by simp
  ultimately show ?thesis using h1 h2 by blast
qed

subsection \<open>Network-first requests live in the runtime cache only\<close>

lemma runtime_only_caches_open:
  "runtime_only store \<Longrightarrow> runtime_only (caches_open nm store)"
  by (simp add: runtime_only_def caches_open_def)

lemma runtime_only_put_in_runtime:
  "runtime_only store \<Longrightarrow> runtime_only (put_in RUNTIME_CACHE req resp store)"
  by (induction store) (auto simp: runtime_only_def)

lemma precache_assets_not_network_first:
  "r \<in> set (PRECACHE_ASSETS self_origin) \<Longrightarrow> \<not> network_first r"
  by (auto simp: PRECACHE_ASSETS_def network_first_def)

lemma addAll_fetch_keys: "addAll_fetch net rs = Inr ps \<Longrightarrow> map fst ps = rs"
  by (induction rs arbitrary: ps) (auto split: sum.splits if_splits)

lemma put_in_keeps_clean:
  "\<forall>(n, c) \<in> set store. n = m \<longrightarrow> list_all Q c \<Longrightarrow> Q (req, resp)
     \<Longrightarrow> \<forall>(n, c) \<in> set (put_in nm req resp store). n = m \<longrightarrow> list_all Q c"
  by (induction store) (auto intro: list_all_cache_put split: if_splits)

lemma fold_put_in_keeps_clean:
  "\<forall>(n, c) \<in> set store. n = m \<longrightarrow> list_all Q c \<Longrightarrow> \<forall>p \<in> set ps. Q p
     \<Longrightarrow> \<forall>(n, c) \<in> set (fold (\<lambda>(r, resp). put_in nm r resp) ps store). n = m \<longrightarrow> list_all Q c"
proof (induction ps arbitrary: store)
  case Nil
  then show ?case by simp
next
  case (Cons p ps)
  obtain r resp where p: "p = (r, resp)" by (cases p)
  from Cons.prems have "\<forall>(n, c) \<in> set (put_in nm r resp store). n = m \<longrightarrow> list_all Q c"
    by (intro put_in_keeps_clean) (auto simp: p)
  then have "\<forall>(n, c) \<in> set (fold (\<lambda>(r, resp). put_in nm r resp) ps (put_in nm r resp store)).
      n = m \<longrightarrow> list_all Q c"
    using Cons.prems(2) by (intro Cons.IH) auto
  then show ?case by (simp add: p)
qed

lemma install_precache_clean:
  assumes "CACHE_NAME \<notin> set (caches_keys store0)"
  shows "\<forall>(n, c) \<in> set (install self_origin net store0).
           n = CACHE_NAME \<longrightarrow> list_all (\<lambda>(k, v). \<not> network_first k) c"
proof -
  let ?Q = "\<lambda>(k :: request, v :: response). \<not> network_first k"
  have opened: "\<forall>(n, c) \<in> set (caches_open CACHE_NAME store0). n = CACHE_NAME \<longrightarrow> list_all ?Q c"
    using assms by (auto simp: caches_open_def caches_keys_def rev_image_eqI)
  show ?thesis
  proof (cases "addAll_fetch net (PRECACHE_ASSETS self_origin)")
    case (Inl e)
    with opened show ?thesis by (simp add: install_def)
  next
    case (Inr ps)
    then have "map fst ps = PRECACHE_ASSETS self_origin"
      by (rule addAll_fetch_keys)
    then have "\<forall>p \<in> set ps. ?Q p"
      using precache_assets_not_network_first [of _ self_origin]
      by (metis (mono_tags, lifting) case_prod_beta image_eqI set_map)
    with opened have "\<forall>(n, c) \<in> set (fold (\<lambda>(r, resp). put_in CACHE_NAME r resp) ps
        (caches_open CACHE_NAME store0)). n = CACHE_NAME \<longrightarrow> list_all ?Q c"
      by (rule fold_put_in_keeps_clean)
    with Inr show ?thesis by (simp add: install_def)
  qed
qed

lemma runtime_only_put_in_static:
  "runtime_only store \<Longrightarrow> \<not> network_first req \<Longrightarrow> runtime_only (put_in nm req resp store)"
  by (induction store) (auto simp: runtime_only_def intro: list_all_cache_put)

lemma runtime_only_fold_put_in:
  "runtime_only store \<Longrightarrow> \<forall>r \<in> fst ` set ps. \<not> network_first r
     \<Longrightarrow> runtime_only (fold (\<lambda>(r, resp). put_in nm r resp) ps store)"
  by (induction ps arbitrary: store) (auto simp: runtime_only_put_in_static)

text \<open>Every later install and every activation keep the property, too.\<close>

lemma runtime_only_install:
  assumes "runtime_only store"
  shows "runtime_only (install self_origin net store)"
proof (cases "addAll_fetch net (PRECACHE_ASSETS self_origin)")
  case (Inl e)
  with assms show ?thesis
    by (simp add: install_def runtime_only_caches_open)
next
  case (Inr ps)
  then have "fst ` set ps = set (PRECACHE_ASSETS self_origin)"
    using addAll_fetch_keys by (metis set_map)
  then have "\<forall>r \<in> fst ` set ps. \<not> network_first r"
    using precache_assets_not_network_first by blast
  with assms Inr show ?thesis
    by (simp add: install_def runtime_only_caches_open runtime_only_fold_put_in)
qed

lemma runtime_only_activate: "runtime_only store \<Longrightarrow> runtime_only (activate store)"
  by (simp add: activate_filter runtime_only_def list_all_iff)

lemma runtime_only_first_activation:
  assumes "CACHE_NAME \<notin> set (caches_keys store0)"
  shows "runtime_only (activate (install self_origin net store0))"
  using install_precache_clean [OF assms, of self_origin net]
  by (auto simp: runtime_only_def activate_filter list_all_iff)

lemma runtime_only_fetch:
  "runtime_only store \<Longrightarrow> runtime_only (storage (fetch_handler net store req))"
  by (simp add: fetch_handler_def write_through_def open_put_def Let_def
      runtime_only_caches_open runtime_only_put_in_runtime split: sum.splits option.splits)

text \<open>
  The storage of the examples is one the worker builds: installed while offline on an
  empty storage, activated, and then asked for the bundle while online.
\<close>

lemma runtime_store_built:
  "storage (fetch_handler online (activate (install self_origin offline [])) app_bundle)
     = runtime_store"
  by (simp add: install_def activate_def caches_open_def caches_keys_def caches_delete_def
      PRECACHE_ASSETS_def offline_def online_def fetch_handler_def write_through_def
      open_put_def put_accepted_def cache_put_def network_first_def app_bundle_def
      page_200_def runtime_store_def CACHE_NAME_def RUNTIME_CACHE_def)

lemma caches_match_runtime:
  "runtime_only store \<Longrightarrow> network_first req \<Longrightarrow> map_of store RUNTIME_CACHE = Some c
     \<Longrightarrow> cache_match c req = Some r \<Longrightarrow> caches_match store req = Some r"
proof (induction store)
  case Nil
  then show ?case by simp
next
  case (Cons a store)
  obtain n c0 where a: "a = (n, c0)" by (cases a)
  show ?case
  proof (cases "n = RUNTIME_CACHE")
    case True
    with Cons.prems a show ?thesis by simp
  next
    case False
    with Cons.prems a have "list_all (\<lambda>(k, v). \<not> network_first k) c0"
      by (simp add: runtime_only_def)
    with \<open>network_first req\<close> have "req \<notin> fst ` set c0"
      by (auto simp: list_all_iff)
    then have "cache_match c0 req = None"
      by (simp add: cache_match_def map_of_eq_None_iff)
    moreover have "caches_match store req = Some r"
      using Cons.prems a False by (intro Cons.IH) (auto simp: runtime_only_def)
    ultimately show ?thesis by (simp add: a)
  qed
qed

subsection \<open>The fetch listener\<close>

text \<open>
  C8. A request whose origin contains \<^verbatim>\<open>supabase.co\<close> is never intercepted: whatever
  its method, the network and the caches, the handler returns without calling
  \<^verbatim>\<open>respondWith\<close>, makes no fetch of its own, reads no cache and writes none.
\<close>

theorem supabase_never_intercepted:
  "includes_str (origin req) ''supabase.co''
     \<Longrightarrow> fetch_handler net store req =
           \<lparr>outcome = NotIntercepted, fetched = [], puts = [], storage = store\<rparr>"
  by (simp add: fetch_handler_def)

theorem supabase_never_intercepted_witness:
  "includes_str (origin supabase_rows) ''supabase.co''
   \<and> caches_match stale_store supabase_rows = Some page_200
   \<and> fetch_handler offline stale_store supabase_rows =
        \<lparr>outcome = NotIntercepted, fetched = [], puts = [], storage = stale_store\<rparr>"
proof -
  have h1: "includes_str (origin supabase_rows) ''supabase.co''"
    by (simp add: supabase_rows_def)
  have h2: "caches_match stale_store supabase_rows = Some page_200"
    by (simp add: stale_store_def cache_match_def supabase_rows_def icon_png_def)
  show ?thesis
    using supabase_never_intercepted [where net = offline and store = stale_store, OF h1] h1 h2
    by simp
qed

text \<open>
  C2. A GET request of the network-first class (not to Supabase) whose network fetch
  fails, while the runtime cache holds a response \<open>r\<close> for that exact request: the
  handler responds with a cached response for the request, the one \<^verbatim>\<open>caches.match\<close>
  finds, instead of the failure. That response is \<open>r\<close> itself in every storage where
  network-first requests are held by the runtime cache only: the storage after the
  first install and activation is such a storage, and every fetch event, install and
  activation keeps it one (\<open>runtime_only_first_activation\<close>, \<open>runtime_only_fetch\<close>,
  \<open>runtime_only_install\<close>, \<open>runtime_only_activate\<close>).
\<close>

theorem network_first_falls_back_to_cache:
  assumes "method' req = ''GET''"
    and "\<not> includes_str (origin req) ''supabase.co''"
    and "network_first req"
    and "net req = Inl e"
    and "cache_match (cache_named store RUNTIME_CACHE) req = Some r"
  shows "(\<exists>r'. outcome (fetch_handler net store req) = RespondWith (Resolved (Some r'))
            \<and> caches_match store req = Some r')
       \<and> (runtime_only store \<longrightarrow>
            outcome (fetch_handler net store req) = RespondWith (Resolved (Some r)))"
proof -
  have out: "outcome (fetch_handler net store req) = RespondWith (Resolved (caches_match store req))"
    using assms(1-4) by (simp add: fetch_handler_def)
  have named: "map_of store RUNTIME_CACHE = Some (cache_named store RUNTIME_CACHE)"
    using assms(5) by (rule cache_named_holds)
  from named assms(5) obtain r' where "caches_match store req = Some r'"
    using caches_match_named by blast
  moreover have "caches_match store req = Some r" if "runtime_only store"
    using that assms(3) named assms(5) by (rule caches_match_runtime)
  ultimately show ?thesis by (simp add: out)
qed

theorem network_first_falls_back_to_cache_witness:
  "method' app_bundle = ''GET'' \<and> \<not> includes_str (origin app_bundle) ''supabase.co''
   \<and> network_first app_bundle \<and> offline app_bundle = Inl NetworkError
   \<and> cache_match (cache_named runtime_store RUNTIME_CACHE) app_bundle = Some page_200
   \<and> runtime_only runtime_store
   \<and> outcome (fetch_handler offline runtime_store app_bundle)
       = RespondWith (Resolved (Some page_200))"
proof -
  have h1: "method' app_bundle = ''GET''" by (simp add: app_bundle_def)
  have h2: "\<not> includes_str (origin app_bundle) ''supabase.co''" by (simp add: app_bundle_def)
  have h3: "network_first app_bundle" by (simp add: app_bundle_def network_first_def)
  have h4: "offline app_bundle = Inl NetworkError" by (simp add: offline_def)
  have h5: "cache_match (cache_named runtime_store RUNTIME_CACHE) app_bundle = Some page_200"
    by (simp add: runtime_store_def cache_named_def cache_match_def CACHE_NAME_def
        RUNTIME_CACHE_def)
  have h6: "runtime_only runtime_store"
    by (simp add: runtime_store_def runtime_only_def CACHE_NAME_def RUNTIME_CACHE_def)
  show ?thesis
    using network_first_falls_back_to_cache [where net = offline, OF h1 h2 h3 h4 h5]
      h1 h2 h3 h4 h5 h6
    by simp
qed

text \<open>
  C3, as the code has it. A GET request of the network-first class (not to Supabase)
  whose network fetch fails and for which no cache holds a response: the promise handed
  to \<^verbatim>\<open>respondWith\<close> resolves with \<^verbatim>\<open>undefined\<close>, the result of \<^verbatim>\<open>caches.match\<close>; it
  does not reject and does not carry the network error. No cache is written.
\<close>

theorem network_first_miss_resolves_undefined:
  assumes "method' req = ''GET''"
    and "\<not> includes_str (origin req) ''supabase.co''"
    and "network_first req"
    and "net req = Inl e"
    and "caches_match store req = None"
  shows "fetch_handler net store req =
           \<lparr>outcome = RespondWith (Resolved None), fetched = [req], puts = [], storage = store\<rparr>"
  using assms by (simp add: fetch_handler_def)

theorem network_first_miss_resolves_undefined_witness:
  "method' app_bundle = ''GET'' \<and> \<not> includes_str (origin app_bundle) ''supabase.co''
   \<and> network_first app_bundle \<and> offline app_bundle = Inl NetworkError
   \<and> caches_match stale_store app_bundle = None
   \<and> fetch_handler offline stale_store app_bundle =
       \<lparr>outcome = RespondWith (Resolved None), fetched = [app_bundle], puts = [],
        storage = stale_store\<rparr>"
proof -
  have h1: "method' app_bundle = ''GET''" by (simp add: app_bundle_def)
  have h2: "\<not> includes_str (origin app_bundle) ''supabase.co''" by (simp add: app_bundle_def)
  have h3: "network_first app_bundle" by (simp add: app_bundle_def network_first_def)
  have h4: "offline app_bundle = Inl NetworkError" by (simp add: offline_def)
  have h5: "caches_match stale_store app_bundle = None"
    by (simp add: stale_store_def cache_match_def app_bundle_def icon_png_def supabase_rows_def)
  show ?thesis
    using network_first_miss_resolves_undefined [where net = offline, OF h1 h2 h3 h4 h5]
      h1 h2 h3 h4 h5
    by simp
qed

text \<open>
  C3 as stated fails: the bundle is requested while the network is down and no cache
  holds it; the handler answers with \<^verbatim>\<open>undefined\<close> and not with a rejection.
\<close>

theorem network_first_miss_counterexample:
  "method' app_bundle = ''GET'' \<and> network_first app_bundle
   \<and> offline app_bundle = Inl NetworkError
   \<and> caches_match stale_store app_bundle = None
   \<and> outcome (fetch_handler offline stale_store app_bundle) = RespondWith (Resolved None)
   \<and> outcome (fetch_handler offline stale_store app_bundle) \<noteq> RespondWith (Rejected NetworkError)"
  by (simp add: fetch_handler_def network_first_def offline_def stale_store_def cache_match_def
      app_bundle_def icon_png_def supabase_rows_def)

text \<open>
  C7, as the code has it. A GET request that is neither excluded nor of the
  network-first class. If \<^verbatim>\<open>caches.match\<close> finds a response, the handler responds with
  it, makes no network fetch and writes nothing. If it finds none, the handler fetches
  the request once, and then:
  \<^item> a response of status 200 is returned, and a put of it into the runtime cache is
    started but not awaited: the answer comes first in the order of events, the put
    after it. Once the put has settled the runtime cache holds the response for the
    request if the put was accepted, and has the entries it had if the put was
    rejected;
  \<^item> a response of any other status is returned and nothing is written;
  \<^item> a failed fetch rejects the promise with the error of the fetch, and nothing is
    written.
\<close>

theorem cache_first_policy:
  assumes "method' req = ''GET''"
    and "\<not> includes_str (origin req) ''supabase.co''"
    and "\<not> network_first req"
  shows "(\<forall>cachedResponse. caches_match store req = Some cachedResponse \<longrightarrow>
            fetch_handler net store req =
              \<lparr>outcome = RespondWith (Resolved (Some cachedResponse)), fetched = [],
               puts = [], storage = store\<rparr>)
       \<and> (\<forall>resp. caches_match store req = None \<and> net req = Inr resp \<and> status resp = 200 \<longrightarrow>
            fetch_handler net store req =
              \<lparr>outcome = RespondWith (Resolved (Some resp)), fetched = [req],
               puts = [(RUNTIME_CACHE, req, resp)],
               storage = open_put RUNTIME_CACHE req resp store\<rparr>
            \<and> fetch_events net store req =
                [CachesMatch req None, Fetch req (Inr resp), Answered (Resolved (Some resp)),
                 CachePut RUNTIME_CACHE req resp]
            \<and> (put_accepted req resp \<longrightarrow>
                 cache_match (cache_named (storage (fetch_handler net store req)) RUNTIME_CACHE)
                   req = Some resp)
            \<and> (\<not> put_accepted req resp \<longrightarrow>
                 cache_named (storage (fetch_handler net store req)) RUNTIME_CACHE
                   = cache_named store RUNTIME_CACHE))
       \<and> (\<forall>resp. caches_match store req = None \<and> net req = Inr resp \<and> status resp \<noteq> 200 \<longrightarrow>
            fetch_handler net store req =
              \<lparr>outcome = RespondWith (Resolved (Some resp)), fetched = [req],
               puts = [], storage = store\<rparr>)
       \<and> (\<forall>e. caches_match store req = None \<and> net req = Inl e \<longrightarrow>
            fetch_handler net store req =
              \<lparr>outcome = RespondWith (Rejected e), fetched = [req],
               puts = [], storage = store\<rparr>)"
  using assms
  by (simp add: fetch_handler_def fetch_events_def write_through_def then_events_def
      cache_named_open_put cache_match_cache_put)

theorem cache_first_policy_witness:
  "method' icon_png = ''GET'' \<and> \<not> includes_str (origin icon_png) ''supabase.co''
   \<and> \<not> network_first icon_png
   \<and> caches_match stale_store icon_png = Some not_found
   \<and> fetch_handler online stale_store icon_png =
        \<lparr>outcome = RespondWith (Resolved (Some not_found)), fetched = [],
         puts = [], storage = stale_store\<rparr>
   \<and> caches_match runtime_store icon_png = None
   \<and> online icon_png = Inr page_200 \<and> status page_200 = 200 \<and> put_accepted icon_png page_200
   \<and> fetch_events online runtime_store icon_png =
        [CachesMatch icon_png None, Fetch icon_png (Inr page_200),
         Answered (Resolved (Some page_200)), CachePut RUNTIME_CACHE icon_png page_200]
   \<and> cache_match (cache_named (storage (fetch_handler online runtime_store icon_png))
        RUNTIME_CACHE) icon_png = Some page_200
   \<and> serves_204 icon_png = Inr no_content \<and> status no_content \<noteq> 200 \<and> ok no_content
   \<and> fetch_handler serves_204 runtime_store icon_png =
        \<lparr>outcome = RespondWith (Resolved (Some no_content)), fetched = [icon_png],
         puts = [], storage = runtime_store\<rparr>
   \<and> offline icon_png = Inl NetworkError
   \<and> fetch_handler offline runtime_store icon_png =
        \<lparr>outcome = RespondWith (Rejected NetworkError), fetched = [icon_png],
         puts = [], storage = runtime_store\<rparr>"
proof -
  have h1: "method' icon_png = ''GET''" by (simp add: icon_png_def)
  have h2: "\<not> includes_str (origin icon_png) ''supabase.co''" by (simp add: icon_png_def)
  have h3: "\<not> network_first icon_png" by (simp add: icon_png_def network_first_def)
  have h4: "caches_match stale_store icon_png = Some not_found"
    by (simp add: stale_store_def cache_match_def)
  have h5: "caches_match runtime_store icon_png = None"
    by (simp add: runtime_store_def cache_match_def icon_png_def app_bundle_def)
  have h6: "online icon_png = Inr page_200" by (simp add: online_def)
  have h7: "status page_200 = 200" by (simp add: page_200_def)
  have h8: "put_accepted icon_png page_200"
    by (simp add: put_accepted_def icon_png_def page_200_def)
  have h9: "serves_204 icon_png = Inr no_content" by (simp add: serves_204_def)
  have h10: "status no_content \<noteq> 200" and h11: "ok no_content"
    by (simp_all add: no_content_def ok_def)
  have h12: "offline icon_png = Inl NetworkError" by (simp add: offline_def)
  have hit: "fetch_handler online stale_store icon_png =
      \<lparr>outcome = RespondWith (Resolved (Some not_found)), fetched = [],
       puts = [], storage = stale_store\<rparr>"
    using cache_first_policy [where net = online and store = stale_store, OF h1 h2 h3] h4
    by blast
  have miss: "fetch_events online runtime_store icon_png =
        [CachesMatch icon_png None, Fetch icon_png (Inr page_200),
         Answered (Resolved (Some page_200)), CachePut RUNTIME_CACHE icon_png page_200]"
    and held: "cache_match (cache_named (storage (fetch_handler online runtime_store icon_png))
        RUNTIME_CACHE) icon_png = Some page_200"
    using cache_first_policy [where net = online and store = runtime_store, OF h1 h2 h3]
      h5 h6 h7 h8
    by blast+
  have other: "fetch_handler serves_204 runtime_store icon_png =
        \<lparr>outcome = RespondWith (Resolved (Some no_content)), fetched = [icon_png],
         puts = [], storage = runtime_store\<rparr>"
    using cache_first_policy [where net = serves_204 and store = runtime_store, OF h1 h2 h3]
      h5 h9 h10
    by blast
  have failed: "fetch_handler offline runtime_store icon_png =
        \<lparr>outcome = RespondWith (Rejected NetworkError), fetched = [icon_png],
         puts = [], storage = runtime_store\<rparr>"
    using cache_first_policy [where net = offline and store = runtime_store, OF h1 h2 h3]
      h5 h12
    by blast
  from h1 h2 h3 h4 hit h5 h6 h7 h8 miss held h9 h10 h11 other h12 failed
  show ?thesis by blast
qed

text \<open>
  C7 as stated fails: the icon is not cached and the network answers with status 200
  and \<^verbatim>\<open>Vary: *\<close>. The response is handed back before the put runs, the put is
  rejected, and the runtime cache does not hold the response afterwards.
\<close>

theorem cache_first_write_counterexample:
  "method' icon_png = ''GET'' \<and> \<not> network_first icon_png
   \<and> caches_match runtime_store icon_png = None
   \<and> serves_vary icon_png = Inr vary_page \<and> status vary_page = 200
   \<and> fetch_events serves_vary runtime_store icon_png =
        [CachesMatch icon_png None, Fetch icon_png (Inr vary_page),
         Answered (Resolved (Some vary_page)), CachePut RUNTIME_CACHE icon_png vary_page]
   \<and> outcome (fetch_handler serves_vary runtime_store icon_png)
        = RespondWith (Resolved (Some vary_page))
   \<and> cache_match (cache_named (storage (fetch_handler serves_vary runtime_store icon_png))
        RUNTIME_CACHE) icon_png = None"
  by (simp add: fetch_handler_def fetch_events_def write_through_def then_events_def
      open_put_def put_accepted_def caches_open_def caches_keys_def cache_named_def
      cache_match_def network_first_def serves_vary_def vary_page_def runtime_store_def
      icon_png_def app_bundle_def CACHE_NAME_def RUNTIME_CACHE_def)

text \<open>
  C10. Only responses of status 200 are written to the runtime cache. Every write the
  handler starts, in either branch, goes to the runtime cache and carries a response of
  status 200; a fetched response of any other status is returned to the requester and
  the cache storage stays as it was; so a runtime cache whose entries all have status
  200 keeps that property through every fetch event.
\<close>

theorem only_status_200_is_written:
  "(\<forall>(n, k, v) \<in> set (puts (fetch_handler net store req)). n = RUNTIME_CACHE \<and> status v = 200)
   \<and> (\<forall>resp. fetched (fetch_handler net store req) = [req] \<and> net req = Inr resp
          \<and> status resp \<noteq> 200 \<longrightarrow>
        fetch_handler net store req =
          \<lparr>outcome = RespondWith (Resolved (Some resp)), fetched = [req], puts = [],
           storage = store\<rparr>)
   \<and> (list_all (\<lambda>(k, v). status v = 200) (cache_named store RUNTIME_CACHE) \<longrightarrow>
        list_all (\<lambda>(k, v). status v = 200)
          (cache_named (storage (fetch_handler net store req)) RUNTIME_CACHE))"
  by (auto simp: fetch_handler_def write_through_def cache_named_open_put
      intro: list_all_cache_put split: sum.splits option.splits)

theorem only_status_200_is_written_witness:
  "fetched (fetch_handler serves_404 runtime_store icon_png) = [icon_png]
   \<and> serves_404 icon_png = Inr not_found \<and> status not_found \<noteq> 200
   \<and> fetch_handler serves_404 runtime_store icon_png =
        \<lparr>outcome = RespondWith (Resolved (Some not_found)), fetched = [icon_png], puts = [],
         storage = runtime_store\<rparr>
   \<and> puts (fetch_handler online runtime_store icon_png) = [(RUNTIME_CACHE, icon_png, page_200)]
   \<and> list_all (\<lambda>(k, v). status v = 200) (cache_named runtime_store RUNTIME_CACHE)
   \<and> list_all (\<lambda>(k, v). status v = 200)
        (cache_named (storage (fetch_handler online runtime_store icon_png)) RUNTIME_CACHE)"
proof -
  have g: "method' icon_png = ''GET'' \<and> \<not> includes_str (origin icon_png) ''supabase.co''
      \<and> \<not> network_first icon_png \<and> caches_match runtime_store icon_png = None"
    by (simp add: icon_png_def network_first_def runtime_store_def cache_match_def app_bundle_def)
  have h1: "fetched (fetch_handler serves_404 runtime_store icon_png) = [icon_png]"
    using g by (simp add: fetch_handler_def write_through_def serves_404_def not_found_def)
  have h2: "serves_404 icon_png = Inr not_found" by (simp add: serves_404_def)
  have h3: "status not_found \<noteq> 200" by (simp add: not_found_def)
  have h4: "list_all (\<lambda>(k, v). status v = 200) (cache_named runtime_store RUNTIME_CACHE)"
    by (simp add: runtime_store_def cache_named_def CACHE_NAME_def RUNTIME_CACHE_def page_200_def)
  have h5: "puts (fetch_handler online runtime_store icon_png)
      = [(RUNTIME_CACHE, icon_png, page_200)]"
    using g by (simp add: fetch_handler_def write_through_def online_def page_200_def)
  show ?thesis
    using only_status_200_is_written [of serves_404 runtime_store icon_png]
      only_status_200_is_written [of online runtime_store icon_png] h1 h2 h3 h4 h5
    by simp
qed

section \<open>Properties of the application\<close>

subsection \<open>smartSync\<close>

text \<open>
  C1. When the \<open>fetchVersion\<close> capability fails, \<open>smartSync\<close> returns the current
  Entity Cache contents tagged \<open>no_change\<close> and \<open>fromCache = True\<close>, changes nothing
  and raises nothing, whatever \<open>fetchAll\<close> would do. The capability that \<^verbatim>\<open>loadData\<close>
  passes fails exactly when \<^verbatim>\<open>getDataVersion\<close> does, so the same holds at the call
  site.
\<close>

theorem smartSync_survives_fetchVersion_failure:
  "smartSync (Inl e) fetchAll s =
     (s, \<lparr>categories = cachedCategories s, businesses = cachedBusinesses s,
          action = no_change, fromCache = True\<rparr>)
   \<and> smartSync (loadData_fetchVersion (Inl e) now) fetchAll s =
     (s, \<lparr>categories = cachedCategories s, businesses = cachedBusinesses s,
          action = no_change, fromCache = True\<rparr>)"
  by (simp add: smartSync_def loadData_fetchVersion_def cached_result_def)

subsection \<open>The change-stream handler\<close>

lemma applyEvent_keeps_version:
  "applyEvent decode p s = Inr s1 \<Longrightarrow> localVersion s1 = localVersion s"
  by (auto simp: applyEvent_def split: if_splits sum.splits)

lemma applyEvent_localVersion:
  "applyEvent decode p s = Inr s1
     \<Longrightarrow> applyEvent decode p (s\<lparr>localVersion := v\<rparr>) = Inr (s1\<lparr>localVersion := v\<rparr>)"
  by (auto simp: applyEvent_def split: if_splits sum.splits)

lemma applyEvent_update_shop: "applyEvent decode_row update_shop synced_state = Inr renamed_state"
  by (simp add: applyEvent_def update_shop_def synced_state_def renamed_state_def decode_row_def
      shop_renamed_def shop_def tailor_def)

text \<open>
  C4, as the code has it. After a change-stream event of any type is applied (to the
  state \<open>s1\<close>), the handler requests a fresh version from the remote collaborator.
  When the request resolves, the counts and the fingerprint it brought, with the
  current time as \<^verbatim>\<open>last_sync\<close>, are persisted with \<open>setLocalVersion\<close>: they are the
  local version of the state the handler leaves, which is otherwise \<open>s1\<close>. When the
  request rejects, the handler logs the error and completes, and the state it leaves
  is \<open>s1\<close>, with the version that was stored before the event.
\<close>

theorem version_refresh_follows_request:
  assumes "applyEvent decode p s = Inr s1"
  shows "(\<forall>version. getDataVersion = Inr version \<longrightarrow>
            changeHandler decode getDataVersion now p s =
              Inr \<lparr>state = s1\<lparr>localVersion :=
                       Some \<lparr>businessCount = businessCount version,
                             categoryCount = categoryCount version,
                             fingerprint = fingerprint version, last_sync = now\<rparr>\<rparr>,
                   logged = []\<rparr>)
       \<and> (\<forall>e. getDataVersion = Inl e \<longrightarrow>
            changeHandler decode getDataVersion now p s = Inr \<lparr>state = s1, logged = [e]\<rparr>
            \<and> localVersion s1 = localVersion s)"
  using assms applyEvent_keeps_version [OF assms]
  by (simp add: changeHandler_def refreshVersion_def setLocalVersion_def stamp_def)

theorem version_refresh_follows_request_witness:
  "applyEvent decode_row update_shop synced_state = Inr renamed_state
   \<and> localVersion synced_state
       = Some \<lparr>businessCount = 2, categoryCount = 1, fingerprint = ''A'', last_sync = 1000\<rparr>
   \<and> changeHandler decode_row (Inr remote_v2) 2000 update_shop synced_state =
       Inr \<lparr>state = renamed_state\<lparr>localVersion :=
                Some \<lparr>businessCount = 3, categoryCount = 1, fingerprint = ''B'',
                      last_sync = 2000\<rparr>\<rparr>,
            logged = []\<rparr>
   \<and> changeHandler decode_row (Inl NetworkError) 2000 update_shop synced_state =
       Inr \<lparr>state = renamed_state, logged = [NetworkError]\<rparr>"
proof -
  note applied = applyEvent_update_shop
  have stored: "localVersion synced_state
      = Some \<lparr>businessCount = 2, categoryCount = 1, fingerprint = ''A'', last_sync = 1000\<rparr>"
    by (simp add: synced_state_def stamp_def remote_v_def)
  have fresh: "changeHandler decode_row (Inr remote_v2) 2000 update_shop synced_state =
       Inr \<lparr>state = renamed_state\<lparr>localVersion :=
                Some \<lparr>businessCount = 3, categoryCount = 1, fingerprint = ''B'',
                      last_sync = 2000\<rparr>\<rparr>,
            logged = []\<rparr>"
    using version_refresh_follows_request [OF applied, of "Inr remote_v2" 2000]
    by (simp add: remote_v2_def)
  have failed: "changeHandler decode_row (Inl NetworkError) 2000 update_shop synced_state =
       Inr \<lparr>state = renamed_state, logged = [NetworkError]\<rparr>"
    using version_refresh_follows_request [OF applied, of "Inl NetworkError" 2000]
    by simp
  from applied stored fresh failed show ?thesis by blast
qed

text \<open>
  C4 as stated fails: the UPDATE event is applied while the version request is
  rejected. The handler completes, the business data has changed, and the stored
  version is still the one from before the event; nothing was persisted.
\<close>

theorem version_stale_counterexample:
  "changeHandler decode_row (Inl NetworkError) 2000 update_shop synced_state =
     Inr \<lparr>state = renamed_state, logged = [NetworkError]\<rparr>
   \<and> businessData renamed_state \<noteq> businessData synced_state
   \<and> localVersion renamed_state = localVersion synced_state
   \<and> localVersion synced_state
       = Some \<lparr>businessCount = 2, categoryCount = 1, fingerprint = ''A'', last_sync = 1000\<rparr>"
proof -
  have run: "changeHandler decode_row (Inl NetworkError) 2000 update_shop synced_state =
      Inr \<lparr>state = renamed_state, logged = [NetworkError]\<rparr>"
    by (simp add: changeHandler_def applyEvent_update_shop refreshVersion_def)
  have changed: "businessData renamed_state \<noteq> businessData synced_state"
    by (simp add: renamed_state_def synced_state_def shop_renamed_def shop_def)
  have kept: "localVersion renamed_state = localVersion synced_state"
    by (simp add: renamed_state_def synced_state_def)
  have stored: "localVersion synced_state
      = Some \<lparr>businessCount = 2, categoryCount = 1, fingerprint = ''A'', last_sync = 1000\<rparr>"
    by (simp add: synced_state_def stamp_def remote_v_def)
  from run changed kept stored show ?thesis by blast
qed

lemma updateCachedBusiness_idem:
  "updateCachedBusiness b (updateCachedBusiness b xs) = updateCachedBusiness b xs"
  by (induction xs) auto

lemma replace_by_id_idem:
  "map (\<lambda>b. if id' b = id' u then u else b) (map (\<lambda>b. if id' b = id' u then u else b) xs)
     = map (\<lambda>b. if id' b = id' u then u else b) xs"
  by (induction xs) auto

lemma applyEvent_update_idem:
  assumes "eventType p = UPDATE" and "applyEvent decode p s = Inr s1"
  shows "applyEvent decode p s1 = Inr s1"
proof (cases "new p")
  case None
  with assms show ?thesis by (simp add: applyEvent_def)
next
  case (Some raw)
  with assms obtain u where u: "decode raw = Inr u"
    by (auto simp: applyEvent_def split: sum.splits)
  with assms Some show ?thesis
    by (auto simp: applyEvent_def updateCachedBusiness_idem replace_by_id_idem)
qed

text \<open>
  C5. Applying the same UPDATE event a second time leaves the state the first
  application left: with the same answer of the version request the handler's whole
  result is the same, and with any other answer the in-memory business data and the
  cached businesses still are.
\<close>

theorem update_event_idempotent:
  assumes "eventType p = UPDATE"
    and "changeHandler decode getDataVersion now p s = Inr r1"
  shows "changeHandler decode getDataVersion now p (state r1) = Inr r1
       \<and> (\<exists>r2. changeHandler decode getDataVersion2 now2 p (state r1) = Inr r2
              \<and> businessData (state r2) = businessData (state r1)
              \<and> cachedBusinesses (state r2) = cachedBusinesses (state r1))"
proof -
  from assms(2) obtain s1 where s1: "applyEvent decode p s = Inr s1"
    and r1: "r1 = refreshVersion getDataVersion now s1"
    by (auto simp: changeHandler_def split: sum.splits)
  have again: "applyEvent decode p s1 = Inr s1"
    using assms(1) s1 by (rule applyEvent_update_idem)
  have data: "businessData (state (refreshVersion g n x)) = businessData x
      \<and> cachedBusinesses (state (refreshVersion g n x)) = cachedBusinesses x" for g n x
    by (simp add: refreshVersion_def setLocalVersion_def split: sum.splits)
  have "applyEvent decode p (state r1) = Inr (state r1)"
    using again applyEvent_localVersion [OF again]
    by (simp add: r1 refreshVersion_def setLocalVersion_def split: sum.splits)
  then show ?thesis
    using data by (auto simp: changeHandler_def r1 refreshVersion_def setLocalVersion_def
        split: sum.splits)
qed

theorem update_event_idempotent_witness:
  "eventType update_shop = UPDATE
   \<and> changeHandler decode_row (Inr remote_v) 2000 update_shop synced_state =
       Inr \<lparr>state = renamed_state\<lparr>localVersion := Some (stamp remote_v 2000)\<rparr>, logged = []\<rparr>
   \<and> changeHandler decode_row (Inr remote_v) 2000 update_shop
        (renamed_state\<lparr>localVersion := Some (stamp remote_v 2000)\<rparr>) =
       Inr \<lparr>state = renamed_state\<lparr>localVersion := Some (stamp remote_v 2000)\<rparr>, logged = []\<rparr>"
proof -
  have h1: "eventType update_shop = UPDATE" by (simp add: update_shop_def)
  have h2: "changeHandler decode_row (Inr remote_v) 2000 update_shop synced_state =
      Inr \<lparr>state = renamed_state\<lparr>localVersion := Some (stamp remote_v 2000)\<rparr>, logged = []\<rparr>"
    by (simp add: changeHandler_def applyEvent_update_shop refreshVersion_def setLocalVersion_def)
  show ?thesis
    using update_event_idempotent [OF h1 h2] h1 h2 by simp
qed

lemma filter_unseen: "i \<notin> id' ` set xs \<Longrightarrow> filter (\<lambda>b. id' b \<noteq> i) xs = xs"
  by (induction xs) auto

text \<open>
  C6. A DELETE event completes without an error, and it leaves unchanged each
  collection of businesses in which the id of the old row does not occur: the
  in-memory business list (with it the whole business data) and the cached businesses.
\<close>

theorem delete_unseen_is_noop:
  assumes "eventType p = DELETE" and "old p = Some row"
  shows "\<exists>r. changeHandler decode getDataVersion now p s = Inr r
       \<and> (old_id row \<notin> id' ` set (businesses (businessData s)) \<longrightarrow>
            businessData (state r) = businessData s)
       \<and> (old_id row \<notin> id' ` set (cachedBusinesses s) \<longrightarrow>
            cachedBusinesses (state r) = cachedBusinesses s)"
  using assms
  by (auto simp: changeHandler_def applyEvent_def refreshVersion_def setLocalVersion_def
      deleteCachedBusiness_def filter_unseen split: sum.splits)

theorem delete_unseen_is_noop_witness:
  "eventType delete_unseen = DELETE \<and> old delete_unseen = Some \<lparr>old_id = ''7''\<rparr>
   \<and> ''7'' \<notin> id' ` set (businesses (businessData synced_state))
   \<and> ''7'' \<notin> id' ` set (cachedBusinesses synced_state)
   \<and> changeHandler decode_row (Inl NetworkError) 2000 delete_unseen synced_state =
       Inr \<lparr>state = synced_state, logged = [NetworkError]\<rparr>"
proof -
  have h1: "eventType delete_unseen = DELETE" by (simp add: delete_unseen_def)
  have h2: "old delete_unseen = Some \<lparr>old_id = ''7''\<rparr>" by (simp add: delete_unseen_def)
  have h3: "''7'' \<notin> id' ` set (businesses (businessData synced_state))"
    by (simp add: synced_state_def shop_def tailor_def)
  have h4: "''7'' \<notin> id' ` set (cachedBusinesses synced_state)"
    by (simp add: synced_state_def shop_def tailor_def)
  have h5: "changeHandler decode_row (Inl NetworkError) 2000 delete_unseen synced_state =
       Inr \<lparr>state = synced_state, logged = [NetworkError]\<rparr>"
    by (simp add: changeHandler_def applyEvent_def refreshVersion_def delete_unseen_def
        deleteCachedBusiness_def synced_state_def shop_def tailor_def)
  show ?thesis
    using delete_unseen_is_noop [OF h1 h2, of decode_row "Inl NetworkError" 2000 synced_state]
      h1 h2 h3 h4 h5
    by simp
qed

end
